theory Spec2Isabelle
  imports Complex_Main "HOL-Library.Sublist"
begin

section \<open>Strings and object literals of the source language\<close>

text \<open>
  A string of the program is modelled as a \<^typ>\<open>string\<close>, one \<^typ>\<open>char\<close> per code unit,
  for the code units below 256. Template literals are concatenation, \<open>===\<close> on strings
  is equality, and \<open>!s\<close> on a string holds for the empty string only.
\<close>

text \<open>
  \<open>s.split(sep)\<close> with a one-character separator: the pieces between the occurrences of
  the separator, in order. The result always has at least one piece.
\<close>

fun split :: "char \<Rightarrow> string \<Rightarrow> string list" where
  "split sep [] = [[]]"
| "split sep (c # cs) =
     (if c = sep then [] # split sep cs
      else (case split sep cs of
              w # ws \<Rightarrow> (c # w) # ws
            | [] \<Rightarrow> [[c]]))"

text \<open>
  Both lookup tables of \<open>generateFakeData\<close> are object literals indexed with a string,
  \<open>table[key]\<close>. An object literal has \<open>Object.prototype\<close> as its prototype, and a
  property read that finds no own property continues there. So the read yields the array
  stored under an own key, a member of \<open>Object.prototype\<close> for the names below, and
  \<open>undefined\<close> for every other key.
\<close>

datatype js_value = Undefined | StringArray "string list" | ObjectPrototypeMember string

definition Object_prototype_keys :: "string list" where
  "Object_prototype_keys =
     [''constructor'', ''hasOwnProperty'', ''isPrototypeOf'', ''propertyIsEnumerable'',
      ''toLocaleString'', ''toString'', ''valueOf'', ''__proto__'',
      ''__defineGetter__'', ''__defineSetter__'', ''__lookupGetter__'', ''__lookupSetter__'']"

definition get_property :: "(string \<times> string list) list \<Rightarrow> string \<Rightarrow> js_value" where
  "get_property obj key =
     (case map_of obj key of
        Some v \<Rightarrow> StringArray v
      | None \<Rightarrow> if key \<in> set Object_prototype_keys
                 then ObjectPrototypeMember key else Undefined)"

text \<open>
  \<open>a || b\<close>: arrays, functions and objects are truthy, \<open>undefined\<close> is falsy.
\<close>

definition or_else :: "js_value \<Rightarrow> js_value \<Rightarrow> js_value" where
  "or_else a b = (if a = Undefined then b else a)"

section \<open>The page controller \<open>Index\<close>\<close>

subsection \<open>generateFakeData\<close>

text \<open>
  The two form inputs travel together through the whole page: in the form's submission,
  in the generated result and in the \<open>data\<close> prop of \<open>ResultsCard\<close>.
\<close>

record topic_level =
  topic :: string
  skillLevel :: string

record result = topic_level +
  learningPath :: js_value
  projects :: js_value
  resources :: "string list"
  careerOpportunities :: "string list"

definition learningPathMap :: "(string \<times> string list) list" where
  "learningPathMap =
     [(''Web Development'',
        [''1. HTML & CSS Fundamentals - Create responsive layouts'',
         ''2. JavaScript Basics - Learn syntax and core concepts'',
         ''3. Frontend Frameworks - Choose React, Angular, or Vue'',
         ''4. Backend Development - Node.js and Express'',
         ''5. Database Integration - SQL and NoSQL options'',
         ''6. API Design - RESTful and GraphQL approaches'',
         ''7. Deployment & DevOps - CI/CD pipelines'']),
      (''Data Science'',
        [''1. Programming Basics - Python and libraries'',
         ''2. Statistics Fundamentals - Probability and inference'',
         ''3. Data Manipulation - Pandas and data cleaning'',
         ''4. Data Visualization - Matplotlib and Seaborn'',
         ''5. Machine Learning Basics - Scikit-learn'',
         ''6. Deep Learning - TensorFlow or PyTorch'',
         ''7. Data Science Projects - Portfolio building'']),
      (''Machine Learning'',
        [''1. Mathematics Fundamentals - Linear algebra and calculus'',
         ''2. Statistical Modeling - Probability distributions'',
         ''3. ML Algorithms - Classification, regression, clustering'',
         ''4. Feature Engineering - Selection and transformation'',
         ''5. Model Evaluation - Metrics and validation'',
         ''6. Deep Learning - Neural networks and architectures'',
         ''7. MLOps - Deployment and monitoring''])]"

definition defaultLearningPath :: "string list" where
  "defaultLearningPath =
     [''1. Fundamentals - Core concepts and principles'',
      ''2. Programming Skills - Required languages and tools'',
      ''3. Specialized Knowledge - Domain-specific techniques'',
      ''4. Advanced Topics - Deeper understanding of complex areas'',
      ''5. Project Work - Applied learning through creation'',
      ''6. Industry Standards - Best practices and workflows'',
      ''7. Continuous Learning - Keeping up with developments'']"

definition projectsByLevel :: "(string \<times> string list) list" where
  "projectsByLevel =
     [(''beginner'',
        [''Personal portfolio website'',
         ''Simple calculator application'',
         ''To-do list manager'',
         ''Weather forecast app'']),
      (''intermediate'',
        [''E-commerce platform with payment integration'',
         ''Social media dashboard with analytics'',
         ''Content management system'',
         ''Real-time chat application'']),
      (''advanced'',
        [''AI-powered recommendation system'',
         ''Blockchain-based decentralized application'',
         ''Cloud-native microservices architecture'',
         ''Computer vision object detection system''])]"

definition generateFakeData :: "string \<Rightarrow> string \<Rightarrow> result" where
  "generateFakeData t l =
     \<lparr>topic = t,
      skillLevel = l,
      learningPath =
        or_else (get_property learningPathMap t) (StringArray defaultLearningPath),
      projects =
        or_else (get_property projectsByLevel l) (get_property projectsByLevel ''beginner''),
      resources =
        [''Udemy - Comprehensive video courses for practical skills'',
         ''Coursera - University-backed learning programs'',
         ''freeCodeCamp - Free interactive coding challenges'',
         ''GitHub repositories with example projects'',
         ''Stack Overflow - Community support for problems'',
         ''O'Reilly books on '' @ t],
      careerOpportunities =
        [split CHR '' '' t ! 0 @ '' Developer at tech companies'',
         ''Freelance consultant for small businesses'',
         ''Technical lead at startups'',
         ''Senior specialist at enterprise organizations'',
         ''Technical educator or course creator'']\<rparr>"

subsection \<open>Session state and its handlers\<close>

record form_data = topic_level +
  aiEnhanced :: bool

record toast =
  toast_title :: string
  toast_description :: string

text \<open>The three \<open>useState\<close> cells of \<open>Index\<close>, and the toasts it has emitted.\<close>

record Index_state =
  formData :: "form_data option"
  isLoading :: bool
  results :: "result option"
  toasts :: "toast list"

definition Index_initial :: Index_state where
  "Index_initial = \<lparr>formData = None, isLoading = False, results = None, toasts = []\<rparr>"

definition handleFormSubmit :: "form_data \<Rightarrow> Index_state \<Rightarrow> Index_state" where
  "handleFormSubmit data s =
     s\<lparr>formData := Some data,
       isLoading := True,
       results := None,
       toasts := toasts s @
         [\<lparr>toast_title = ''Request submitted'',
           toast_description = ''Generating learning path for '' @ topic data\<rparr>]\<rparr>"

definition handleLoadingComplete :: "Index_state \<Rightarrow> Index_state" where
  "handleLoadingComplete s =
     (case formData s of
        None \<Rightarrow> s
      | Some fd \<Rightarrow>
          s\<lparr>results := Some (generateFakeData (topic fd) (skillLevel fd)),
            isLoading := False,
            toasts := toasts s @
              [\<lparr>toast_title = ''Learning path ready!'',
                toast_description = ''Your personalized roadmap has been generated''\<rparr>]\<rparr>)"

text \<open>The \<open>onClick\<close> of "Start a new search".\<close>

definition startNewSearch :: "Index_state \<Rightarrow> Index_state" where
  "startNewSearch s = s\<lparr>formData := None, results := None\<rparr>"

text \<open>
  The phase of the session, read off the state cells that decide what \<open>Index\<close> renders:
  the progress bar while \<open>isLoading\<close>, the results card once \<open>results\<close> is set.
\<close>

datatype phase = Idle | AwaitingResult | Ready

definition phase_of :: "Index_state \<Rightarrow> phase" where
  "phase_of s =
     (if isLoading s then AwaitingResult
      else if results s \<noteq> None then Ready
      else Idle)"

section \<open>The intake form \<open>CourseForm\<close>\<close>

text \<open>
  \<open>handleSubmit\<close> reads the form's own three state cells and either returns early or
  calls the \<open>onSubmit\<close> prop, which acts on the state of the parent component.
\<close>

definition handleSubmit :: "(form_data \<Rightarrow> 'p \<Rightarrow> 'p) \<Rightarrow> form_data \<Rightarrow> 'p \<Rightarrow> 'p" where
  "handleSubmit onSubmit form p =
     (if topic form = [] \<or> skillLevel form = [] then p
      else onSubmit \<lparr>topic = topic form, skillLevel = skillLevel form,
                      aiEnhanced = aiEnhanced form\<rparr> p)"

text \<open>\<open>Index\<close> renders \<open>CourseForm\<close> with \<open>onSubmit = handleFormSubmit\<close>.\<close>

definition submit :: "string \<Rightarrow> string \<Rightarrow> bool \<Rightarrow> Index_state \<Rightarrow> Index_state" where
  "submit t l a =
     handleSubmit handleFormSubmit \<lparr>topic = t, skillLevel = l, aiEnhanced = a\<rparr>"

section \<open>The progress stage \<open>ProgressBar\<close>\<close>

text \<open>
  Timers run on a virtual clock counted in the time units of \<open>setInterval\<close> and
  \<open>setTimeout\<close>. The component state holds the \<open>progress\<close> cell, the interval created by
  the effect (the time left until it fires next, \<open>None\<close> once cleared), the pending
  \<open>setTimeout (onComplete, 500)\<close> calls (the time left for each), and the number of times
  \<open>onComplete\<close> has been called. \<open>progress\<close> is a number of the source; all values it
  takes here are integers between 0 and 100, which rationals represent exactly.
\<close>

record ProgressBar_state =
  progress :: rat
  timer :: "nat option"
  timeouts :: "nat list"
  onComplete_calls :: nat

definition duration :: nat where
  "duration = 3000"

definition interval :: nat where
  "interval = 30"

definition increment :: rat where
  "increment = 100 / (of_nat duration / of_nat interval)"

definition ProgressBar_initial :: ProgressBar_state where
  "ProgressBar_initial = \<lparr>progress = 0, timer = None, timeouts = [], onComplete_calls = 0\<rparr>"

text \<open>The function passed to \<open>setInterval\<close>, with the updater it hands to \<open>setProgress\<close>.\<close>

definition interval_callback :: "ProgressBar_state \<Rightarrow> ProgressBar_state" where
  "interval_callback s =
     (let newProgress = progress s + increment in
      if newProgress \<ge> 100
      then s\<lparr>timer := None, timeouts := timeouts s @ [500], progress := 100\<rparr>
      else s\<lparr>progress := newProgress\<rparr>)"

text \<open>The body of the effect, and the cleanup function it returns.\<close>

definition effect :: "bool \<Rightarrow> ProgressBar_state \<Rightarrow> ProgressBar_state" where
  "effect loading s =
     (if loading then s\<lparr>progress := 0, timer := Some interval\<rparr>
      else s\<lparr>progress := 0\<rparr>)"

definition cleanup :: "ProgressBar_state \<Rightarrow> ProgressBar_state" where
  "cleanup s = s\<lparr>timer := None\<rparr>"

text \<open>
  One time unit passes: every pending timeout that is due calls \<open>onComplete\<close> and is gone,
  the others are one unit closer; then the interval, if it is still set, fires when due
  and is re-armed.
\<close>

definition fire_timeouts :: "ProgressBar_state \<Rightarrow> ProgressBar_state" where
  "fire_timeouts s =
     s\<lparr>timeouts := map (\<lambda>d. d - 1) (filter (\<lambda>d. 1 < d) (timeouts s)),
       onComplete_calls := onComplete_calls s + length (filter (\<lambda>d. d \<le> 1) (timeouts s))\<rparr>"

definition fire_interval :: "ProgressBar_state \<Rightarrow> ProgressBar_state" where
  "fire_interval s =
     (case timer s of
        None \<Rightarrow> s
      | Some k \<Rightarrow>
          if k \<le> 1 then interval_callback (s\<lparr>timer := Some interval\<rparr>)
          else s\<lparr>timer := Some (k - 1)\<rparr>)"

definition time_unit :: "ProgressBar_state \<Rightarrow> ProgressBar_state" where
  "time_unit s = fire_interval (fire_timeouts s)"

definition elapse :: "nat \<Rightarrow> ProgressBar_state \<Rightarrow> ProgressBar_state" where
  "elapse n s = (time_unit ^^ n) s"

text \<open>The component is mounted with \<open>isLoading\<close> true and its effect runs.\<close>

definition enter :: ProgressBar_state where
  "enter = effect True ProgressBar_initial"

text \<open>
  The states a run of the stage passes through, used to describe the run in closed form:
  \<open>rising t\<close> after \<open>t\<close> time units while the interval is set, \<open>waiting d\<close> when the
  timeout has been pending for \<open>d\<close> time units, and \<open>finished\<close> after the callback.
\<close>

definition rising :: "nat \<Rightarrow> ProgressBar_state" where
  "rising t =
     \<lparr>progress = of_nat (t div 30), timer = Some (30 - t mod 30),
      timeouts = [], onComplete_calls = 0\<rparr>"

definition waiting :: "nat \<Rightarrow> ProgressBar_state" where
  "waiting d =
     \<lparr>progress = 100, timer = None, timeouts = [500 - d], onComplete_calls = 0\<rparr>"

definition finished :: ProgressBar_state where
  "finished = \<lparr>progress = 100, timer = None, timeouts = [], onComplete_calls = 1\<rparr>"

section \<open>The results card \<open>ResultsCard\<close>\<close>

subsection \<open>Export\<close>

text \<open>
  The class \<open>\s\<close> of a regular expression, on the code units below 256: tab, line feed,
  vertical tab, form feed, carriage return, space and no-break space.
\<close>

definition is_whitespace :: "char \<Rightarrow> bool" where
  "is_whitespace c =
     (c \<in> set [CHR 0x09, CHR 0x0A, CHR 0x0B, CHR 0x0C, CHR 0x0D, CHR '' '', CHR 0xA0])"

text \<open>
  \<open>s.replace(/\s+/g, r)\<close>: every maximal run of whitespace characters becomes one copy
  of \<open>r\<close>.
\<close>

function replace_whitespace_runs :: "string \<Rightarrow> string \<Rightarrow> string" where
  "replace_whitespace_runs r [] = []"
| "replace_whitespace_runs r (c # cs) =
     (if is_whitespace c then r @ replace_whitespace_runs r (dropWhile is_whitespace cs)
      else c # replace_whitespace_runs r cs)"
  by pat_completeness auto
termination
  by (relation "measure (\<lambda>(r, s). length s)")
     (auto simp: length_dropWhile_le less_Suc_eq_le)

text \<open>
  The anchor element that the delayed callback builds and clicks: its \<open>href\<close> and its
  \<open>download\<close> attribute.
\<close>

record anchor =
  href :: string
  download :: string

text \<open>The data of a \<open>data:\<close> URL is what follows its first comma.\<close>

definition data_url_payload :: "string \<Rightarrow> string" where
  "data_url_payload url = drop 1 (dropWhile (\<lambda>c. c \<noteq> CHR '','') url)"

subsection \<open>Course lookup\<close>

record course =
  course_id :: string
  course_title :: string
  course_rating :: rat
  course_difficulty :: string

definition mockCourses :: "course list" where
  "mockCourses =
     [\<lparr>course_id = ''132'',
       course_title = ''Web Development With Rust'',
       course_rating = 5.0,
       course_difficulty = ''Beginner''\<rparr>,
      \<lparr>course_id = ''396'',
       course_title = ''Web Design For Everybody: Basics Of Web Development & Coding'',
       course_rating = 4.8,
       course_difficulty = ''Beginner''\<rparr>,
      \<lparr>course_id = ''1606'',
       course_title = ''Introduction To Web Development'',
       course_rating = 4.7,
       course_difficulty = ''Beginner''\<rparr>,
      \<lparr>course_id = ''605'',
       course_title = ''Backend Web Development With Go: Build An E-Manual Server'',
       course_rating = 4.8,
       course_difficulty = ''Beginner''\<rparr>,
      \<lparr>course_id = ''196'',
       course_title = ''JavaScript Essentials for Modern Web Development'',
       course_rating = 4.7,
       course_difficulty = ''Beginner''\<rparr>]"

record course_details =
  detail_id :: string
  detail_title :: string
  instructor :: string
  difficulty :: string
  rating :: rat
  skills :: "string list"
  detail_description :: string

text \<open>
  The state cells of the card that its handlers touch, and the timeouts it has set: for
  each, the time left and the anchor it will click; \<open>clicked\<close> lists the anchors clicked
  so far.
\<close>

record ResultsCard_state =
  exportConfirmed :: bool
  courseId :: string
  courseDetails :: "course_details option"
  export_timeouts :: "(nat \<times> anchor) list"
  clicked :: "anchor list"

definition ResultsCard_initial :: ResultsCard_state where
  "ResultsCard_initial =
     \<lparr>exportConfirmed = False, courseId = [], courseDetails = None,
      export_timeouts = [], clicked = []\<rparr>"

definition handleExportPDF ::
  "'a topic_level_scheme \<Rightarrow> ResultsCard_state \<Rightarrow> ResultsCard_state" where
  "handleExportPDF data s =
     s\<lparr>exportConfirmed := True,
       export_timeouts := export_timeouts s @
         [(1000,
           \<lparr>href = ''data:text/plain;charset=utf-8,'',
            download = replace_whitespace_runs ''_'' (topic data) @ ''_roadmap.pdf''\<rparr>)]\<rparr>"

text \<open>One time unit passes for the card: the timeouts that are due click their anchor.\<close>

definition card_time_unit :: "ResultsCard_state \<Rightarrow> ResultsCard_state" where
  "card_time_unit s =
     s\<lparr>export_timeouts :=
         map (\<lambda>(d, a). (d - 1, a)) (filter (\<lambda>(d, a). 1 < d) (export_timeouts s)),
       clicked := clicked s @ map snd (filter (\<lambda>(d, a). d \<le> 1) (export_timeouts s))\<rparr>"

definition card_elapse :: "nat \<Rightarrow> ResultsCard_state \<Rightarrow> ResultsCard_state" where
  "card_elapse n s = (card_time_unit ^^ n) s"

definition handleCourseIdSubmit :: "ResultsCard_state \<Rightarrow> ResultsCard_state" where
  "handleCourseIdSubmit s =
     (if courseId s = [] then s
      else
        (case find (\<lambda>c. course_id c = courseId s) mockCourses of
           Some c \<Rightarrow>
             s\<lparr>courseDetails := Some
               \<lparr>detail_id = course_id c,
                detail_title = course_title c,
                instructor = ''Dr. Jane Smith'',
                difficulty = course_difficulty c,
                rating = course_rating c,
                skills = [''Programming'', ''Web Technologies'', ''System Design''],
                detail_description = ''Cutting-edge course exploring the latest trends and techniques in web development, tailored for beginner learners.''\<rparr>\<rparr>
         | None \<Rightarrow>
             s\<lparr>courseDetails := Some
               \<lparr>detail_id = courseId s,
                detail_title = ''Custom Course'',
                instructor = ''Various Instructors'',
                difficulty = ''Self-paced'',
                rating = 4.5,
                skills = [''Programming'', ''Web Technologies''],
                detail_description = ''A personalized course tailored to your learning objectives and skill level.''\<rparr>\<rparr>))"

text \<open>
  The lookup as the card offers it: the input's \<open>onChange\<close> stores the typed id in
  \<open>courseId\<close>, the form's submission runs the handler, and the panel shows
  \<open>courseDetails\<close>.
\<close>

definition lookup :: "string \<Rightarrow> ResultsCard_state \<Rightarrow> course_details option" where
  "lookup i s = courseDetails (handleCourseIdSubmit (s\<lparr>courseId := i\<rparr>))"

subsection \<open>The presentation templates\<close>

text \<open>
  A roadmap item of \<open>RoadmapSection\<close>, with the fields the templates set. An item written
  without \<open>subItems\<close> has the empty list here: the renderer treats both alike.
\<close>

datatype RoadmapItem =
  RoadmapItem (item_text: string) (item_color: string)
    (item_description: "string option") (subItems: "RoadmapItem list")

definition white :: "string \<Rightarrow> RoadmapItem" where
  "white t = RoadmapItem t ''white'' None []"

definition transformLearningPath :: "'a topic_level_scheme \<Rightarrow> RoadmapItem list" where
  "transformLearningPath data =
     [RoadmapItem
        (''Foundations of '' @ topic data @ '' ('' @ skillLevel data @ '') - 4-6 weeks'')
        ''green-400''
        (Some (''Build core knowledge and fundamental skills in '' @ topic data @ ''. Focus on understanding basic principles and becoming familiar with essential tools.''))
        [RoadmapItem ''Key Concepts:'' ''cyan-400'' None
           [white (topic data @ '' basics''),
            white ''Core principles'',
            white ''Fundamental tools and techniques''],
         RoadmapItem ''Milestones:'' ''pink-400'' None
           [white (''Complete first '' @ topic data @ '' exercise''),
            white (''Build simple '' @ topic data @ '' project'')],
         RoadmapItem ''Practice Activities:'' ''cyan-400'' None
           [white (''Daily '' @ topic data @ '' exercises''),
            white ''Follow beginner tutorials'']],
      RoadmapItem
        (topic data @ '' Skill Development (Intermediate) - 8-12 weeks'')
        ''green-400''
        (Some (''Deepen understanding of '' @ topic data @ '' and apply more advanced concepts. Focus on building practical skills through hands-on projects and implementation.''))
        [RoadmapItem ''Key Concepts:'' ''cyan-400'' None
           [white (''Advanced '' @ topic data @ '' techniques''),
            white ''Applied projects'',
            white ''Specialized tools''],
         RoadmapItem ''Milestones:'' ''pink-400'' None
           [white (''Complete medium complexity '' @ topic data @ '' project''),
            white ''Solve real-world problems''],
         RoadmapItem ''Practice Activities:'' ''cyan-400'' None
           [white ''Implement sample projects'',
            white ''Participate in forums/discussions'']],
      RoadmapItem
        (topic data @ '' Mastery & Specialization (Advanced) - 12-16 weeks'')
        ''green-400''
        (Some (''Develop expert-level skills in '' @ topic data @ '' with focus on real-world application. Specialize in specific areas and build a professional portfolio.''))
        [RoadmapItem ''Key Concepts:'' ''cyan-400'' None
           [white ''Industry best practices'',
            white ''Specialized frameworks'',
            white ''Performance optimization'']]]"

record project =
  project_name :: string
  project_description :: string
  complexity :: string
  time :: string

definition transformProjects :: "'a topic_level_scheme \<Rightarrow> project list" where
  "transformProjects data =
     [\<lparr>project_name = ''Beginner Project: '' @ topic data @ '' Fundamentals Application'',
       project_description = ''Apply basic '' @ topic data @ '' concepts in a simple project to practice fundamentals and gain confidence.'',
       complexity = ''Low'',
       time = ''1-2 weeks''\<rparr>,
      \<lparr>project_name = ''Intermediate Project: Interactive '' @ topic data @ '' Application'',
       project_description = ''Create a more complex application using intermediate '' @ topic data @ '' skills with greater functionality and sophistication.'',
       complexity = ''Medium'',
       time = ''3-4 weeks''\<rparr>,
      \<lparr>project_name = ''Capstone Project: Advanced '' @ topic data @ '' Implementation'',
       project_description = ''Apply all learned skills in a comprehensive '' @ topic data @ '' project that showcases mastery and solves a real-world problem.'',
       complexity = ''High'',
       time = ''6-8 weeks''\<rparr>]"

subsection \<open>The export file name as the specification words it\<close>

text \<open>
  "The topic with spaces replaced by underscores", followed by the suffix: every space
  character becomes an underscore and every other character stays.
\<close>

definition spec_export_filename :: "string \<Rightarrow> string" where
  "spec_export_filename t =
     map (\<lambda>c. if c = CHR '' '' then CHR ''_'' else c) t @ ''_roadmap.pdf''"

text \<open>
  The topics on which the two readings agree: every whitespace character is a space, and
  no whitespace character follows it.
\<close>

fun single_spaced :: "string \<Rightarrow> bool" where
  "single_spaced [] = True"
| "single_spaced [c] = (if is_whitespace c then c = CHR '' '' else True)"
| "single_spaced (c # d # cs) =
     ((if is_whitespace c then c = CHR '' '' \<and> \<not> is_whitespace d else True) \<and>
      single_spaced (d # cs))"

section \<open>Properties of \<open>generateFakeData\<close> and the session\<close>

lemma split_not_Nil: "split sep s \<noteq> []"
  by (induction s) (auto split: list.splits)

lemma split_first: "split sep s ! 0 = takeWhile (\<lambda>c. c \<noteq> sep) s"
  by (induction s) (auto simp: split_not_Nil split: list.splits)

lemma get_property_own:
  "map_of obj key = Some v \<Longrightarrow> get_property obj key = StringArray v"
  by (simp add: get_property_def)

lemma get_property_undefined:
  "key \<notin> fst ` set obj \<Longrightarrow> key \<notin> set Object_prototype_keys \<Longrightarrow>
   get_property obj key = Undefined"
  by (simp add: get_property_def map_of_eq_None_iff [THEN iffD2])

lemma get_property_inherited:
  "key \<notin> fst ` set obj \<Longrightarrow> key \<in> set Object_prototype_keys \<Longrightarrow>
   get_property obj key = ObjectPrototypeMember key"
  by (simp add: get_property_def map_of_eq_None_iff [THEN iffD2])

text \<open>
  C1: the result that the session stores when loading completes is
  \<open>generateFakeData\<close> of the submitted topic and skill level, so two submissions that
  agree on both store the same result, whatever their \<open>aiEnhanced\<close> flags and whatever
  the sessions held before.
\<close>

theorem result_ignores_aiEnhanced:
  assumes "topic d = topic d'" and "skillLevel d = skillLevel d'"
  shows "results (handleLoadingComplete (handleFormSubmit d s)) =
           Some (generateFakeData (topic d) (skillLevel d)) \<and>
         results (handleLoadingComplete (handleFormSubmit d' s')) =
           results (handleLoadingComplete (handleFormSubmit d s))"
  using assms by (simp add: handleLoadingComplete_def handleFormSubmit_def)

theorem result_ignores_aiEnhanced_witness:
  "results (handleLoadingComplete (handleFormSubmit
      \<lparr>topic = ''Data Science'', skillLevel = ''advanced'', aiEnhanced = True\<rparr> Index_initial)) =
   results (handleLoadingComplete (handleFormSubmit
      \<lparr>topic = ''Data Science'', skillLevel = ''advanced'', aiEnhanced = False\<rparr> Index_initial))"
  using result_ignores_aiEnhanced
    [of "\<lparr>topic = ''Data Science'', skillLevel = ''advanced'', aiEnhanced = False\<rparr>"
        "\<lparr>topic = ''Data Science'', skillLevel = ''advanced'', aiEnhanced = True\<rparr>"
        Index_initial Index_initial]
  by simp

text \<open>
  C4: a submission with an empty topic or an empty skill level returns before it calls
  \<open>onSubmit\<close>: whatever the callback is, the state it acts on is unchanged. With the
  callback that \<open>Index\<close> passes, the session is unchanged, and a session that is idle
  stays idle.
\<close>

theorem empty_field_rejected:
  assumes "t = [] \<or> l = []"
  shows "handleSubmit onSubmit \<lparr>topic = t, skillLevel = l, aiEnhanced = a\<rparr> p = p \<and>
         submit t l a s = s \<and>
         (phase_of s = Idle \<longrightarrow> phase_of (submit t l a s) = Idle)"
  using assms by (auto simp: handleSubmit_def submit_def)

theorem empty_field_rejected_witness:
  "submit '''' ''beginner'' False Index_initial = Index_initial \<and>
   phase_of (submit '''' ''beginner'' False Index_initial) = Idle \<and>
   submit ''Web Development'' '''' False Index_initial = Index_initial \<and>
   phase_of (submit ''Web Development'' '''' False Index_initial) = Idle \<and>
   handleSubmit (\<lambda>d n. Suc n)
     \<lparr>topic = '''', skillLevel = ''beginner'', aiEnhanced = False\<rparr> (0::nat) = 0"
  using empty_field_rejected [where t = "''''" and l = "''beginner''" and a = False
          and onSubmit = "\<lambda>d n. Suc n" and p = "0::nat" and s = Index_initial]
        empty_field_rejected [where t = "''Web Development''" and l = "''''" and a = False
          and onSubmit = "\<lambda>d n. Suc n" and p = "0::nat" and s = Index_initial]
  by (simp add: phase_of_def Index_initial_def)

text \<open>A submission with both fields set is passed on and starts the progress stage.\<close>

lemma submit_accepted:
  "t \<noteq> [] \<Longrightarrow> l \<noteq> [] \<Longrightarrow>
   submit t l a s = handleFormSubmit \<lparr>topic = t, skillLevel = l, aiEnhanced = a\<rparr> s \<and>
   phase_of (submit t l a s) = AwaitingResult"
  by (simp add: submit_def handleSubmit_def handleFormSubmit_def phase_of_def)

text \<open>
  The roadmap lookup on the keys of the table, and on every topic that is neither a key
  nor the name of a member of \<open>Object.prototype\<close>.
\<close>

lemma learningPath_own_key:
  "map_of learningPathMap t = Some v \<Longrightarrow>
   learningPath (generateFakeData t l) = StringArray v"
  by (simp add: generateFakeData_def get_property_own or_else_def)

lemma learningPath_keys:
  "map fst learningPathMap = [''Web Development'', ''Data Science'', ''Machine Learning'']"
  by (simp add: learningPathMap_def)

lemma learningPath_fallback:
  "t \<notin> set [''Web Development'', ''Data Science'', ''Machine Learning''] \<Longrightarrow>
   t \<notin> set Object_prototype_keys \<Longrightarrow>
   learningPath (generateFakeData t l) = StringArray defaultLearningPath \<and>
   length defaultLearningPath = 7"
  using get_property_undefined [of t learningPathMap] learningPath_keys
  by (simp add: generateFakeData_def or_else_def defaultLearningPath_def
      del: set_simps flip: set_map)

text \<open>
  C5: the lookup does not fall back for every topic outside the table. The topic
  \<open>constructor\<close> is no key of the table, and the property read finds the member that every
  object inherits, which is truthy: the learning path is that member, not the generic
  list.
\<close>

theorem learningPath_of_constructor:
  "''constructor'' \<notin> set (map fst learningPathMap) \<and>
   learningPath (generateFakeData ''constructor'' ''beginner'') =
     ObjectPrototypeMember ''constructor'' \<and>
   learningPath (generateFakeData ''constructor'' ''beginner'') \<noteq>
     StringArray defaultLearningPath"
  by (simp add: generateFakeData_def get_property_def or_else_def learningPathMap_def
      Object_prototype_keys_def)

text \<open>The project lookup on the three levels and on every other ordinary level.\<close>

lemma projects_own_key:
  "map_of projectsByLevel l = Some v \<Longrightarrow>
   projects (generateFakeData t l) = StringArray v \<and>
   (l \<in> set [''beginner'', ''intermediate'', ''advanced''] \<and> length v = 4)"
  by (auto simp: generateFakeData_def get_property_own or_else_def projectsByLevel_def
      split: if_splits)

lemma projects_fallback:
  "l \<notin> set [''beginner'', ''intermediate'', ''advanced''] \<Longrightarrow>
   l \<notin> set Object_prototype_keys \<Longrightarrow>
   projects (generateFakeData t l) = projects (generateFakeData t' ''beginner'')"
  using get_property_undefined [of l projectsByLevel]
  by (simp add: generateFakeData_def or_else_def projectsByLevel_def)

lemma unknown_topic_and_level:
  "learningPath (generateFakeData ''Quantum Computing'' ''expert'') =
     StringArray defaultLearningPath \<and>
   projects (generateFakeData ''Quantum Computing'' ''expert'') =
     StringArray [''Personal portfolio website'', ''Simple calculator application'',
                  ''To-do list manager'', ''Weather forecast app'']"
  by (simp add: generateFakeData_def get_property_def or_else_def learningPathMap_def
      projectsByLevel_def Object_prototype_keys_def)

text \<open>
  C6: the lookup does not default to the beginner list for every level outside the
  table. The level \<open>toString\<close> is no key of the table, and the property read finds the
  inherited member: the projects are that member, not the beginner list.
\<close>

theorem projects_of_toString:
  "''toString'' \<notin> set (map fst projectsByLevel) \<and>
   projects (generateFakeData ''Web Development'' ''toString'') =
     ObjectPrototypeMember ''toString'' \<and>
   projects (generateFakeData ''Web Development'' ''toString'') \<noteq>
     projects (generateFakeData ''Web Development'' ''beginner'')"
  by (simp add: generateFakeData_def get_property_def or_else_def projectsByLevel_def
      Object_prototype_keys_def)

text \<open>
  C10: for a topic that contains a space, the career list has five entries; the first is
  the topic's first space-separated word, which is the part of the topic before its first
  space, followed by \<open>Developer at tech companies\<close>, and so is not the whole topic
  followed by that text; the other four do not depend on the topic or the level.
\<close>

theorem career_first_word:
  assumes "CHR '' '' \<in> set t"
  shows "length (careerOpportunities (generateFakeData t l)) = 5 \<and>
         careerOpportunities (generateFakeData t l) ! 0 =
           split CHR '' '' t ! 0 @ '' Developer at tech companies'' \<and>
         CHR '' '' \<notin> set (split CHR '' '' t ! 0) \<and>
         prefix (split CHR '' '' t ! 0 @ '' '') t \<and>
         careerOpportunities (generateFakeData t l) ! 0 \<noteq>
           t @ '' Developer at tech companies'' \<and>
         tl (careerOpportunities (generateFakeData t l)) =
           tl (careerOpportunities (generateFakeData t' l'))"
proof -
  let ?w = "takeWhile (\<lambda>c. c \<noteq> CHR '' '') t"
  have w: "split CHR '' '' t ! 0 = ?w"
    by (rule split_first)
  have no_space: "CHR '' '' \<notin> set ?w"
    by (auto dest: set_takeWhileD)
  from assms have "dropWhile (\<lambda>c. c \<noteq> CHR '' '') t \<noteq> []"
    by (simp add: dropWhile_eq_Nil_conv)
  then obtain r where r: "dropWhile (\<lambda>c. c \<noteq> CHR '' '') t = CHR '' '' # r"
    using hd_dropWhile [of "\<lambda>c. c \<noteq> CHR '' ''" t]
    by (cases "dropWhile (\<lambda>c. c \<noteq> CHR '' '') t") auto
  have "t = ?w @ dropWhile (\<lambda>c. c \<noteq> CHR '' '') t"
    by simp
  with r have t: "t = (?w @ '' '') @ r"
    by simp
  then have pre: "prefix (?w @ '' '') t"
    by (metis prefixI)
  from assms have "?w \<noteq> t"
    by (simp add: takeWhile_eq_all_conv)
  with w no_space pre show ?thesis
    by (simp add: generateFakeData_def)
qed

theorem career_first_word_witness:
  "CHR '' '' \<in> set ''Web Development'' \<and>
   careerOpportunities (generateFakeData ''Web Development'' ''beginner'') ! 0 =
     ''Web Developer at tech companies'' \<and>
   careerOpportunities (generateFakeData ''Web Development'' ''beginner'') ! 0 \<noteq>
     ''Web Development Developer at tech companies''"
  using career_first_word [of "''Web Development''" "''beginner''"]
  by simp


section \<open>Properties of the progress stage\<close>

lemma increment_eq: "increment = 1"
  by (simp add: increment_def duration_def interval_def)

lemma elapse_0: "elapse 0 s = s"
  by (simp add: elapse_def)

lemma elapse_Suc: "elapse (Suc n) s = time_unit (elapse n s)"
  by (simp add: elapse_def)

lemma elapse_Suc_0: "elapse (Suc 0) s = time_unit s"
  by (simp add: elapse_def)

lemma elapse_add: "elapse (m + n) s = elapse m (elapse n s)"
  by (simp add: elapse_def funpow_add)

lemma Suc_mod_30_wrap: "(t::nat) mod 30 = 29 \<Longrightarrow> Suc t mod 30 = 0"
  by (simp add: mod_Suc)

lemma Suc_div_30_wrap: "(t::nat) mod 30 = 29 \<Longrightarrow> Suc t div 30 = Suc (t div 30)"
  by (simp add: div_Suc mod_Suc)

lemma Suc_mod_30: "(t::nat) mod 30 \<noteq> 29 \<Longrightarrow> Suc t mod 30 = Suc (t mod 30)"
  by (simp add: mod_Suc)

lemma Suc_div_30: "(t::nat) mod 30 \<noteq> 29 \<Longrightarrow> Suc t div 30 = t div 30"
  by (simp add: div_Suc mod_Suc)

lemma not_due: "(t::nat) mod 30 \<noteq> 29 \<Longrightarrow> \<not> 30 - t mod 30 \<le> 1"
proof -
  assume "t mod 30 \<noteq> 29"
  moreover have "t mod 30 < 30" by simp
  ultimately show ?thesis by linarith
qed

lemma div_30_below_100: "(n::nat) < 3000 \<Longrightarrow> n div 30 < 100"
  by (simp add: less_mult_imp_div_less)

lemma below_100_rat: "Suc n < 100 \<Longrightarrow> \<not> (100::rat) \<le> of_nat n + 1"
proof -
  assume "Suc n < 100"
  then have "(of_nat (Suc n) :: rat) < of_nat 100"
    by (simp only: of_nat_less_iff)
  then show ?thesis by simp
qed

lemma time_unit_rising:
  assumes "Suc t < 3000"
  shows "time_unit (rising t) = rising (Suc t)"
proof (cases "t mod 30 = 29")
  case True
  from assms have "Suc t div 30 < 100" by (rule div_30_below_100)
  with True have "Suc (t div 30) < 100" by (simp only: Suc_div_30_wrap)
  then have "\<not> (100::rat) \<le> of_nat (t div 30) + 1" by (rule below_100_rat)
  with True show ?thesis
    by (simp add: time_unit_def fire_timeouts_def fire_interval_def interval_callback_def
        rising_def increment_eq interval_def Let_def Suc_mod_30_wrap Suc_div_30_wrap)
next
  case False
  then show ?thesis
    by (simp add: time_unit_def fire_timeouts_def fire_interval_def rising_def
        Suc_mod_30 Suc_div_30 not_due)
qed

lemma elapse_rising: "t < 3000 \<Longrightarrow> elapse t enter = rising t"
proof (induction t)
  case 0
  show ?case
    by (simp add: elapse_0 enter_def effect_def ProgressBar_initial_def rising_def interval_def)
next
  case (Suc t)
  then show ?case by (simp add: elapse_Suc time_unit_rising)
qed

lemma elapse_3000: "elapse 3000 enter = waiting 0"
proof -
  have "elapse 3000 enter = time_unit (elapse 2999 enter)"
    using elapse_add [of 1 2999 enter] by (simp add: elapse_Suc_0)
  also have "\<dots> = time_unit (rising 2999)"
    by (simp add: elapse_rising)
  also have "\<dots> = waiting 0"
    by (simp add: time_unit_def fire_timeouts_def fire_interval_def interval_callback_def
        rising_def waiting_def increment_eq interval_def Let_def)
  finally show ?thesis .
qed

lemma time_unit_waiting: "Suc d < 500 \<Longrightarrow> time_unit (waiting d) = waiting (Suc d)"
  by (simp add: time_unit_def fire_timeouts_def fire_interval_def waiting_def)

lemma elapse_waiting: "k + d < 500 \<Longrightarrow> elapse d (waiting k) = waiting (k + d)"
proof (induction d)
  case 0
  show ?case by (simp add: elapse_0)
next
  case (Suc d)
  then show ?case by (simp add: elapse_Suc time_unit_waiting)
qed

lemma time_unit_waiting_last: "time_unit (waiting 499) = finished"
  by (simp add: time_unit_def fire_timeouts_def fire_interval_def waiting_def finished_def)

lemma time_unit_finished: "time_unit finished = finished"
  by (simp add: time_unit_def fire_timeouts_def fire_interval_def finished_def)

lemma elapse_finished: "elapse n finished = finished"
  by (induction n) (simp_all add: elapse_0 elapse_Suc time_unit_finished)

lemma elapse_past_3000: "d < 500 \<Longrightarrow> elapse (d + 3000) enter = waiting d"
  using elapse_waiting [of 0 d] by (simp only: elapse_add elapse_3000 add_0)

lemma elapse_past_3500: "elapse (n + 3500) enter = finished"
proof -
  have "elapse 3500 enter = time_unit (elapse (499 + 3000) enter)"
    using elapse_add [of 1 3499 enter] by (simp add: elapse_Suc_0)
  also have "\<dots> = finished"
    using elapse_past_3000 [of 499] by (simp only: time_unit_waiting_last)
  finally have "elapse 3500 enter = finished" .
  then show ?thesis by (simp only: elapse_add elapse_finished)
qed

text \<open>The whole run of the stage, in closed form.\<close>

lemma elapse_enter:
  "elapse t enter =
     (if t < 3000 then rising t else if t < 3500 then waiting (t - 3000) else finished)"
proof (cases "t < 3000")
  case True
  then show ?thesis by (simp add: elapse_rising)
next
  case False
  note ge = this
  show ?thesis
  proof (cases "t < 3500")
    case True
    with ge have "t - 3000 < 500" and t: "t = (t - 3000) + 3000" by arith+
    then have "elapse t enter = waiting (t - 3000)"
      using elapse_past_3000 [of "t - 3000"] by metis
    with ge True show ?thesis by (simp only: if_True if_False)
  next
    case False
    then have t: "t = (t - 3500) + 3500" by arith
    have "elapse t enter = finished"
      using elapse_past_3500 [of "t - 3500"] t by metis
    with ge False show ?thesis by (simp only: if_True if_False)
  qed
qed



text \<open>
  An exit while the interval is still set clears it, no timeout is pending, and the
  callback is never called afterwards.
\<close>

lemma exit_before_100:
  assumes "t < 3000"
  shows "onComplete_calls (elapse u (cleanup (elapse t enter))) = 0"
proof -
  let ?s = "cleanup (rising t)"
  have "time_unit ?s = ?s"
    by (simp add: time_unit_def fire_timeouts_def fire_interval_def cleanup_def rising_def)
  then have "elapse u ?s = ?s"
    by (induction u) (simp_all add: elapse_0 elapse_Suc)
  with assms show ?thesis
    by (simp add: elapse_rising cleanup_def rising_def)
qed

text \<open>
  An exit after the percentage has reached 100 finds the interval already cleared, so the
  cleanup changes nothing: the pending timeout stays and calls the callback when due.
\<close>

lemma exit_during_grace:
  assumes "3000 \<le> t" and "t < 3500"
  shows "cleanup (elapse t enter) = elapse t enter \<and>
         onComplete_calls (elapse (3500 - t) (cleanup (elapse t enter))) = 1"
proof -
  from assms have w: "elapse t enter = waiting (t - 3000)"
    by (simp add: elapse_enter)
  then have c: "cleanup (elapse t enter) = elapse t enter"
    by (simp add: cleanup_def waiting_def)
  from assms have "elapse (3500 - t) (elapse t enter) = elapse 3500 enter"
    using elapse_add [of "3500 - t" t enter] by simp
  then have "elapse (3500 - t) (elapse t enter) = finished"
    by (simp add: elapse_enter)
  with c show ?thesis
    by (simp add: finished_def)
qed

text \<open>
  C3: an exit does not keep the callback from firing when it comes after the percentage
  reached 100 and before the delay has passed. The stage is left at time 3200, when the
  callback has not been called; the cleanup clears the interval and leaves the timeout,
  and 300 time units later the callback has been called.
\<close>

theorem callback_fires_after_exit:
  "progress (elapse 3200 enter) = 100 \<and>
   timeouts (cleanup (elapse 3200 enter)) = [300] \<and>
   onComplete_calls (cleanup (elapse 3200 enter)) = 0 \<and>
   onComplete_calls (elapse 300 (cleanup (elapse 3200 enter))) = 1"
proof -
  have w: "elapse 3200 enter = waiting 200"
    by (simp add: elapse_enter)
  have c: "cleanup (waiting 200) = waiting 200"
    by (simp add: cleanup_def waiting_def)
  have "elapse 300 (waiting 200) = time_unit (elapse 299 (waiting 200))"
    using elapse_add [of 1 299 "waiting 200"] by (simp add: elapse_Suc_0)
  also have "\<dots> = finished"
    using elapse_waiting [of 200 299] by (simp add: time_unit_waiting_last)
  finally have "elapse 300 (waiting 200) = finished" .
  with w c show ?thesis
    by (simp add: waiting_def finished_def)
qed


section \<open>Properties of the results card\<close>

subsection \<open>Export\<close>

lemma replace_whitespace_runs_no_whitespace:
  "list_all (\<lambda>c. \<not> is_whitespace c) r \<Longrightarrow>
   list_all (\<lambda>c. \<not> is_whitespace c) (replace_whitespace_runs r s)"
  by (induction r s rule: replace_whitespace_runs.induct) simp_all

text \<open>A maximal run of whitespace, whatever its length, becomes one copy of \<open>r\<close>.\<close>

lemma replace_whitespace_runs_run:
  assumes "list_all (\<lambda>c. \<not> is_whitespace c) u"
    and "w \<noteq> []" and "list_all is_whitespace w"
    and "v = [] \<or> \<not> is_whitespace (hd v)"
  shows "replace_whitespace_runs r (u @ w @ v) = u @ r @ replace_whitespace_runs r v"
proof -
  from assms(2) obtain c w' where w: "w = c # w'"
    by (cases w) auto
  with assms(3) have c: "is_whitespace c" and w': "\<forall>x \<in> set w'. is_whitespace x"
    by (simp_all add: list_all_iff)
  from assms(4) have "dropWhile is_whitespace v = v"
    by (cases v) auto
  with w' have "dropWhile is_whitespace (w' @ v) = v"
    by simp
  with c w have run: "replace_whitespace_runs r (w @ v) = r @ replace_whitespace_runs r v"
    by simp
  from assms(1) show ?thesis
    by (induction u) (simp_all add: run)
qed

lemma replace_single_spaced:
  "single_spaced s \<Longrightarrow>
   replace_whitespace_runs ''_'' s = map (\<lambda>c. if c = CHR '' '' then CHR ''_'' else c) s"
proof (induction s rule: single_spaced.induct)
  case 1
  show ?case by simp
next
  case (2 c)
  then show ?case by (auto simp: is_whitespace_def split: if_splits)
next
  case (3 c d cs)
  then show ?case by (auto simp: is_whitespace_def split: if_splits)
qed

lemma card_elapse_0: "card_elapse 0 s = s"
  by (simp add: card_elapse_def)

lemma card_elapse_Suc: "card_elapse (Suc n) s = card_time_unit (card_elapse n s)"
  by (simp add: card_elapse_def)

lemma card_elapse_add: "card_elapse (m + n) s = card_elapse m (card_elapse n s)"
  by (simp add: card_elapse_def funpow_add)

lemma card_elapse_idle: "export_timeouts s = [] \<Longrightarrow> card_elapse n s = s"
  by (induction n) (simp_all add: card_elapse_0 card_elapse_Suc card_time_unit_def)

lemma card_elapse_pending:
  "export_timeouts s = [(k, a)] \<Longrightarrow> t < k \<Longrightarrow>
   card_elapse t s = s\<lparr>export_timeouts := [(k - t, a)]\<rparr>"
proof (induction t)
  case 0
  then show ?case by (simp add: card_elapse_0)
next
  case (Suc t)
  then show ?case
    by (simp add: card_elapse_Suc card_time_unit_def Suc_diff_Suc)
qed

lemma card_elapse_due:
  assumes "export_timeouts s = [(Suc k, a)]"
  shows "card_elapse (Suc k) s = s\<lparr>export_timeouts := [], clicked := clicked s @ [a]\<rparr>"
  using card_elapse_pending [OF assms, of k]
  by (simp add: card_elapse_Suc card_time_unit_def)

lemma card_elapse_single:
  assumes "export_timeouts s = [(Suc k, a)]"
  shows "clicked (card_elapse t s) = (if t < Suc k then clicked s else clicked s @ [a])"
proof (cases "t < Suc k")
  case True
  with assms show ?thesis by (simp add: card_elapse_pending)
next
  case False
  then have "t = (t - Suc k) + Suc k" by simp
  then have "card_elapse t s = card_elapse (t - Suc k) (card_elapse (Suc k) s)"
    by (metis card_elapse_add)
  with False assms show ?thesis
    by (simp add: card_elapse_due card_elapse_idle)
qed

lemma replace_whitespace_runs_none:
  "list_all (\<lambda>c. \<not> is_whitespace c) s \<Longrightarrow> replace_whitespace_runs r s = s"
  by (induction s) simp_all

text \<open>
  C9, as the code has it: when no export is pending, the export clicks nothing before
  1000 time units have passed and one anchor from then on; the anchor's payload is empty
  and its file name is the topic with every maximal run of whitespace replaced by one
  underscore, followed by \<open>_roadmap.pdf\<close>. That is: a topic without whitespace is kept
  as it is; and when the topic is \<open>u\<close>, then \<open>w\<close>, then \<open>v\<close>, where \<open>u\<close> has no
  whitespace, \<open>w\<close> is a run of one or more whitespace characters of any kind, and \<open>v\<close>
  does not start with whitespace, then the name starts with \<open>u\<close> and a single
  underscore, and goes on with \<open>v\<close> treated in the same way. The name has no
  whitespace, and it is the specification's name when the topic's whitespace is single
  spaces.
\<close>

theorem export_after_delay:
  assumes "export_timeouts s = []"
  shows "clicked (card_elapse t (handleExportPDF data s)) =
           (if t < 1000 then clicked s
            else clicked s @
              [\<lparr>href = ''data:text/plain;charset=utf-8,'',
                download = replace_whitespace_runs ''_'' (topic data) @ ''_roadmap.pdf''\<rparr>]) \<and>
         data_url_payload ''data:text/plain;charset=utf-8,'' = [] \<and>
         list_all (\<lambda>c. \<not> is_whitespace c)
           (replace_whitespace_runs ''_'' (topic data) @ ''_roadmap.pdf'') \<and>
         (single_spaced (topic data) \<longrightarrow>
            replace_whitespace_runs ''_'' (topic data) @ ''_roadmap.pdf'' =
              spec_export_filename (topic data)) \<and>
         (list_all (\<lambda>c. \<not> is_whitespace c) (topic data) \<longrightarrow>
            replace_whitespace_runs ''_'' (topic data) @ ''_roadmap.pdf'' =
              topic data @ ''_roadmap.pdf'') \<and>
         (topic data = u @ w @ v \<and>
          list_all (\<lambda>c. \<not> is_whitespace c) u \<and>
          w \<noteq> [] \<and> list_all is_whitespace w \<and>
          (v = [] \<or> \<not> is_whitespace (hd v)) \<longrightarrow>
            replace_whitespace_runs ''_'' (topic data) @ ''_roadmap.pdf'' =
              u @ ''_'' @ replace_whitespace_runs ''_'' v @ ''_roadmap.pdf'') \<and>
         (topic data = u @ w @ v \<and>
          list_all (\<lambda>c. \<not> is_whitespace c) u \<and>
          w \<noteq> [] \<and> list_all is_whitespace w \<and>
          list_all (\<lambda>c. \<not> is_whitespace c) v \<longrightarrow>
            replace_whitespace_runs ''_'' (topic data) @ ''_roadmap.pdf'' =
              u @ ''_'' @ v @ ''_roadmap.pdf'')"
proof -
  let ?a = "\<lparr>href = ''data:text/plain;charset=utf-8,'',
             download = replace_whitespace_runs ''_'' (topic data) @ ''_roadmap.pdf''\<rparr>"
  from assms have "export_timeouts (handleExportPDF data s) = [(Suc 999, ?a)]"
    by (simp add: handleExportPDF_def)
  then have "clicked (card_elapse t (handleExportPDF data s)) =
      (if t < Suc 999 then clicked (handleExportPDF data s)
       else clicked (handleExportPDF data s) @ [?a])"
    by (rule card_elapse_single)
  then have 1: "clicked (card_elapse t (handleExportPDF data s)) =
      (if t < 1000 then clicked s else clicked s @ [?a])"
    by (simp add: handleExportPDF_def)
  have 2: "data_url_payload ''data:text/plain;charset=utf-8,'' = []"
    by (simp add: data_url_payload_def)
  have "list_all (\<lambda>c. \<not> is_whitespace c) ''_''"
    by (simp add: is_whitespace_def)
  then have "list_all (\<lambda>c. \<not> is_whitespace c) (replace_whitespace_runs ''_'' (topic data))"
    by (rule replace_whitespace_runs_no_whitespace)
  moreover have "list_all (\<lambda>c. \<not> is_whitespace c) ''_roadmap.pdf''"
    by (simp add: is_whitespace_def)
  ultimately have 3: "list_all (\<lambda>c. \<not> is_whitespace c)
      (replace_whitespace_runs ''_'' (topic data) @ ''_roadmap.pdf'')"
    by (simp only: list_all_append simp_thms)
  have 4: "single_spaced (topic data) \<longrightarrow>
      replace_whitespace_runs ''_'' (topic data) @ ''_roadmap.pdf'' =
        spec_export_filename (topic data)"
    by (simp add: replace_single_spaced spec_export_filename_def)
  have 5: "list_all (\<lambda>c. \<not> is_whitespace c) (topic data) \<longrightarrow>
      replace_whitespace_runs ''_'' (topic data) @ ''_roadmap.pdf'' =
        topic data @ ''_roadmap.pdf''"
    by (simp add: replace_whitespace_runs_none)
  have 6: "topic data = u @ w @ v \<and>
      list_all (\<lambda>c. \<not> is_whitespace c) u \<and>
      w \<noteq> [] \<and> list_all is_whitespace w \<and>
      (v = [] \<or> \<not> is_whitespace (hd v)) \<longrightarrow>
        replace_whitespace_runs ''_'' (topic data) @ ''_roadmap.pdf'' =
          u @ ''_'' @ replace_whitespace_runs ''_'' v @ ''_roadmap.pdf''"
    using replace_whitespace_runs_run [of u w v "''_''"] by simp
  have 7: "topic data = u @ w @ v \<and>
      list_all (\<lambda>c. \<not> is_whitespace c) u \<and>
      w \<noteq> [] \<and> list_all is_whitespace w \<and>
      list_all (\<lambda>c. \<not> is_whitespace c) v \<longrightarrow>
        replace_whitespace_runs ''_'' (topic data) @ ''_roadmap.pdf'' =
          u @ ''_'' @ v @ ''_roadmap.pdf''"
  proof
    assume h: "topic data = u @ w @ v \<and>
      list_all (\<lambda>c. \<not> is_whitespace c) u \<and>
      w \<noteq> [] \<and> list_all is_whitespace w \<and>
      list_all (\<lambda>c. \<not> is_whitespace c) v"
    then have "v = [] \<or> \<not> is_whitespace (hd v)"
      by (cases v) simp_all
    with h have "replace_whitespace_runs ''_'' (u @ w @ v) =
        u @ ''_'' @ replace_whitespace_runs ''_'' v"
      by (intro replace_whitespace_runs_run) simp_all
    with h show "replace_whitespace_runs ''_'' (topic data) @ ''_roadmap.pdf'' =
        u @ ''_'' @ v @ ''_roadmap.pdf''"
      by (simp add: replace_whitespace_runs_none)
  qed
  show ?thesis
    by (intro conjI) (rule 1 2 3 4 5 6 7)+
qed

theorem export_after_delay_witness:
  "export_timeouts ResultsCard_initial = [] \<and>
   single_spaced ''Web Development'' \<and>
   clicked (card_elapse 999
     (handleExportPDF \<lparr>topic = ''Web Development'', skillLevel = ''beginner''\<rparr>
        ResultsCard_initial)) = [] \<and>
   clicked (card_elapse 1000
     (handleExportPDF \<lparr>topic = ''Web Development'', skillLevel = ''beginner''\<rparr>
        ResultsCard_initial)) =
     [\<lparr>href = ''data:text/plain;charset=utf-8,'',
       download = ''Web_Development_roadmap.pdf''\<rparr>] \<and>
   spec_export_filename ''Web Development'' = ''Web_Development_roadmap.pdf'' \<and>
   list_all (\<lambda>c. \<not> is_whitespace c) ''Data'' \<and>
   [CHR '' '', CHR 0x09, CHR 0x0A] \<noteq> [] \<and>
   list_all is_whitespace [CHR '' '', CHR 0x09, CHR 0x0A] \<and>
   list_all (\<lambda>c. \<not> is_whitespace c) ''Science'' \<and>
   clicked (card_elapse 1000
     (handleExportPDF
        \<lparr>topic = ''Data'' @ [CHR '' '', CHR 0x09, CHR 0x0A] @ ''Science'',
         skillLevel = ''beginner''\<rparr>
        ResultsCard_initial)) =
     [\<lparr>href = ''data:text/plain;charset=utf-8,'',
       download = ''Data_Science_roadmap.pdf''\<rparr>] \<and>
   list_all (\<lambda>c. \<not> is_whitespace c) ''Robotics'' \<and>
   clicked (card_elapse 1000
     (handleExportPDF \<lparr>topic = ''Robotics'', skillLevel = ''beginner''\<rparr>
        ResultsCard_initial)) =
     [\<lparr>href = ''data:text/plain;charset=utf-8,'', download = ''Robotics_roadmap.pdf''\<rparr>]"
  using export_after_delay [where s = ResultsCard_initial and t = 999
          and data = "\<lparr>topic = ''Web Development'', skillLevel = ''beginner''\<rparr>"
          and u = "[]" and w = "[]" and v = "[]"]
        export_after_delay [where s = ResultsCard_initial and t = 1000
          and data = "\<lparr>topic = ''Web Development'', skillLevel = ''beginner''\<rparr>"
          and u = "[]" and w = "[]" and v = "[]"]
        export_after_delay [where s = ResultsCard_initial and t = 1000
          and data = "\<lparr>topic = ''Data'' @ [CHR '' '', CHR 0x09, CHR 0x0A] @ ''Science'',
                        skillLevel = ''beginner''\<rparr>"
          and u = "''Data''" and w = "[CHR '' '', CHR 0x09, CHR 0x0A]" and v = "''Science''"]
        export_after_delay [where s = ResultsCard_initial and t = 1000
          and data = "\<lparr>topic = ''Robotics'', skillLevel = ''beginner''\<rparr>"
          and u = "[]" and w = "[]" and v = "[]"]
  by (simp add: ResultsCard_initial_def is_whitespace_def spec_export_filename_def)

text \<open>
  C9, as stated, fails on a topic with two adjacent spaces: the code's file name has one
  underscore where the topic with its spaces replaced by underscores has two.
\<close>

theorem export_filename_double_space:
  "clicked (card_elapse 1000
     (handleExportPDF \<lparr>topic = ''Data  Science'', skillLevel = ''beginner''\<rparr>
        ResultsCard_initial)) =
     [\<lparr>href = ''data:text/plain;charset=utf-8,'', download = ''Data_Science_roadmap.pdf''\<rparr>] \<and>
   spec_export_filename ''Data  Science'' = ''Data__Science_roadmap.pdf'' \<and>
   ''Data_Science_roadmap.pdf'' \<noteq> spec_export_filename ''Data  Science''"
proof -
  let ?s = "handleExportPDF \<lparr>topic = ''Data  Science'', skillLevel = ''beginner''\<rparr>
              ResultsCard_initial"
  have "export_timeouts ?s =
      [(Suc 999, \<lparr>href = ''data:text/plain;charset=utf-8,'',
                   download = ''Data_Science_roadmap.pdf''\<rparr>)]"
    by (simp add: handleExportPDF_def ResultsCard_initial_def is_whitespace_def)
  then have "clicked (card_elapse 1000 ?s) =
      (if (1000::nat) < Suc 999 then clicked ?s
       else clicked ?s @ [\<lparr>href = ''data:text/plain;charset=utf-8,'',
                           download = ''Data_Science_roadmap.pdf''\<rparr>])"
    by (rule card_elapse_single)
  moreover have "clicked ?s = []"
    by (simp add: handleExportPDF_def ResultsCard_initial_def)
  ultimately show ?thesis
    by (simp add: spec_export_filename_def)
qed

subsection \<open>Course lookup\<close>

lemma mockCourses_ids:
  "map course_id mockCourses = [''132'', ''396'', ''1606'', ''605'', ''196'']"
  by (simp add: mockCourses_def)

text \<open>
  C8, as the code has it: for every id that is not empty the lookup yields a detail
  record that carries the id. For one of the five catalog ids the record has the title,
  rating and difficulty of the catalog entry with that id, and the fixed instructor,
  skills and description; for every other id it has the title \<open>Custom Course\<close>. For the
  empty id the handler returns early and the details stay as they were.
\<close>

theorem lookup_nonempty_id:
  assumes "i \<noteq> []"
  shows "\<exists>d. lookup i s = Some d \<and> detail_id d = i \<and>
           (if i \<in> set [''132'', ''396'', ''1606'', ''605'', ''196'']
            then (\<exists>c \<in> set mockCourses. course_id c = i \<and>
                    detail_title d = course_title c \<and>
                    rating d = course_rating c \<and>
                    difficulty d = course_difficulty c) \<and>
                 instructor d = ''Dr. Jane Smith'' \<and>
                 skills d = [''Programming'', ''Web Technologies'', ''System Design''] \<and>
                 detail_description d = ''Cutting-edge course exploring the latest trends and techniques in web development, tailored for beginner learners.''
            else detail_title d = ''Custom Course'') \<and>
         lookup [] s = courseDetails s"
proof (cases "find (\<lambda>c. course_id c = i) mockCourses")
  case None
  then have "i \<notin> set (map course_id mockCourses)"
    by (auto simp: find_None_iff)
  then have "i \<notin> set [''132'', ''396'', ''1606'', ''605'', ''196'']"
    by (simp add: mockCourses_ids)
  with None assms show ?thesis
    by (simp add: lookup_def handleCourseIdSubmit_def)
next
  case (Some c)
  then have c: "c \<in> set mockCourses" "course_id c = i"
    by (auto simp: find_Some_iff)
  then have "i \<in> set (map course_id mockCourses)"
    by auto
  then have "i \<in> set [''132'', ''396'', ''1606'', ''605'', ''196'']"
    by (simp add: mockCourses_ids)
  with Some c assms show ?thesis
    by (auto simp: lookup_def handleCourseIdSubmit_def)
qed

theorem lookup_nonempty_id_witness:
  "''132'' \<noteq> [] \<and>
   (\<exists>d. lookup ''132'' ResultsCard_initial = Some d \<and> detail_id d = ''132'' \<and>
         instructor d = ''Dr. Jane Smith'') \<and>
   (\<exists>d. lookup ''999999'' ResultsCard_initial = Some d \<and> detail_id d = ''999999'' \<and>
         detail_title d = ''Custom Course'')"
  using lookup_nonempty_id [of "''132''" ResultsCard_initial]
        lookup_nonempty_id [of "''999999''" ResultsCard_initial]
  by auto

text \<open>
  C8, as stated, fails for the empty id: the lookup yields no record, so neither a catalog
  record nor the placeholder.
\<close>

theorem lookup_empty_id:
  "lookup '''' ResultsCard_initial = None"
  by (simp add: lookup_def handleCourseIdSubmit_def ResultsCard_initial_def)

text \<open>The two lookups that the specification names, evaluated.\<close>

lemma lookup_132:
  "map_option detail_id (lookup ''132'' s) = Some ''132'' \<and>
   map_option detail_title (lookup ''132'' s) = Some ''Web Development With Rust''"
  by (simp add: lookup_def handleCourseIdSubmit_def mockCourses_def)

lemma lookup_999999:
  "map_option detail_id (lookup ''999999'' s) = Some ''999999'' \<and>
   map_option detail_title (lookup ''999999'' s) = Some ''Custom Course''"
  by (simp add: lookup_def handleCourseIdSubmit_def mockCourses_def)

subsection \<open>The presentation templates\<close>

lemma sublist_ConsI: "sublist xs ys \<Longrightarrow> sublist xs (y # ys)"
  by (simp add: sublist_Cons_right)

text \<open>
  C7, as the code has it: the templates give exactly three phases and three projects with
  the fixed titles, duration ranges and complexity tiers. The topic is interpolated into
  the title and the description of every phase and into the name and the description of
  every project. The skill level is interpolated into the title of the first phase only:
  the projects, the other two phases, and the description and the sub-items of the
  first phase do not depend on it.
\<close>

theorem presentation_templates:
  "map item_text (transformLearningPath d) =
     [''Foundations of '' @ topic d @ '' ('' @ skillLevel d @ '') - 4-6 weeks'',
      topic d @ '' Skill Development (Intermediate) - 8-12 weeks'',
      topic d @ '' Mastery & Specialization (Advanced) - 12-16 weeks''] \<and>
   list_all (\<lambda>p. case item_description p of None \<Rightarrow> False | Some x \<Rightarrow> sublist (topic d) x)
     (transformLearningPath d) \<and>
   map project_name (transformProjects d) =
     [''Beginner Project: '' @ topic d @ '' Fundamentals Application'',
      ''Intermediate Project: Interactive '' @ topic d @ '' Application'',
      ''Capstone Project: Advanced '' @ topic d @ '' Implementation''] \<and>
   list_all (\<lambda>q. sublist (topic d) (project_description q)) (transformProjects d) \<and>
   map complexity (transformProjects d) = [''Low'', ''Medium'', ''High''] \<and>
   map time (transformProjects d) = [''1-2 weeks'', ''3-4 weeks'', ''6-8 weeks''] \<and>
   transformProjects (d\<lparr>skillLevel := l\<rparr>) = transformProjects d \<and>
   tl (transformLearningPath (d\<lparr>skillLevel := l\<rparr>)) = tl (transformLearningPath d) \<and>
   map item_description (transformLearningPath (d\<lparr>skillLevel := l\<rparr>)) =
     map item_description (transformLearningPath d) \<and>
   map subItems (transformLearningPath (d\<lparr>skillLevel := l\<rparr>)) =
     map subItems (transformLearningPath d)"
proof -
  have 1: "map item_text (transformLearningPath d) =
     [''Foundations of '' @ topic d @ '' ('' @ skillLevel d @ '') - 4-6 weeks'',
      topic d @ '' Skill Development (Intermediate) - 8-12 weeks'',
      topic d @ '' Mastery & Specialization (Advanced) - 12-16 weeks'']"
    by (simp add: transformLearningPath_def)
  have 2: "list_all (\<lambda>p. case item_description p of None \<Rightarrow> False
                          | Some x \<Rightarrow> sublist (topic d) x) (transformLearningPath d)"
    by (simp add: transformLearningPath_def)
       (intro conjI sublist_ConsI sublist_append_rightI)
  have 3: "map project_name (transformProjects d) =
     [''Beginner Project: '' @ topic d @ '' Fundamentals Application'',
      ''Intermediate Project: Interactive '' @ topic d @ '' Application'',
      ''Capstone Project: Advanced '' @ topic d @ '' Implementation'']"
    by (simp add: transformProjects_def)
  have 4: "list_all (\<lambda>q. sublist (topic d) (project_description q)) (transformProjects d)"
    by (simp add: transformProjects_def)
       (intro conjI sublist_ConsI sublist_append_rightI)
  have 5: "map complexity (transformProjects d) = [''Low'', ''Medium'', ''High'']"
    by (simp add: transformProjects_def)
  have 6: "map time (transformProjects d) = [''1-2 weeks'', ''3-4 weeks'', ''6-8 weeks'']"
    by (simp add: transformProjects_def)
  have 7: "transformProjects (d\<lparr>skillLevel := l\<rparr>) = transformProjects d"
    by (simp add: transformProjects_def)
  have 8: "tl (transformLearningPath (d\<lparr>skillLevel := l\<rparr>)) = tl (transformLearningPath d)"
    by (simp add: transformLearningPath_def)
  have 9: "map item_description (transformLearningPath (d\<lparr>skillLevel := l\<rparr>)) =
      map item_description (transformLearningPath d)"
    by (simp add: transformLearningPath_def)
  have 10: "map subItems (transformLearningPath (d\<lparr>skillLevel := l\<rparr>)) =
      map subItems (transformLearningPath d)"
    by (simp add: transformLearningPath_def)
  from 1 2 3 4 5 6 7 8 9 10 show ?thesis by blast
qed

theorem presentation_templates_witness:
  "map item_text (transformLearningPath \<lparr>topic = ''Robotics'', skillLevel = ''beginner''\<rparr>) =
     [''Foundations of Robotics (beginner) - 4-6 weeks'',
      ''Robotics Skill Development (Intermediate) - 8-12 weeks'',
      ''Robotics Mastery & Specialization (Advanced) - 12-16 weeks''] \<and>
   map project_name (transformProjects \<lparr>topic = ''Robotics'', skillLevel = ''beginner''\<rparr>) =
     [''Beginner Project: Robotics Fundamentals Application'',
      ''Intermediate Project: Interactive Robotics Application'',
      ''Capstone Project: Advanced Robotics Implementation''] \<and>
   transformProjects \<lparr>topic = ''Robotics'', skillLevel = ''advanced''\<rparr> =
     transformProjects \<lparr>topic = ''Robotics'', skillLevel = ''beginner''\<rparr>"
  using presentation_templates
    [of "\<lparr>topic = ''Robotics'', skillLevel = ''beginner''\<rparr>" "''advanced''"]
  by simp

text \<open>
  C7, as stated, fails: for the topic \<open>Robotics\<close> and the level \<open>beginner\<close> the level
  occurs in no project's name or description and in neither the second nor the third
  phase's title or description, and another level gives the same projects.
\<close>

theorem templates_without_skillLevel:
  "\<not> sublist ''beginner'' (project_name
       (transformProjects \<lparr>topic = ''Robotics'', skillLevel = ''beginner''\<rparr> ! 0)) \<and>
   \<not> sublist ''beginner'' (project_description
       (transformProjects \<lparr>topic = ''Robotics'', skillLevel = ''beginner''\<rparr> ! 0)) \<and>
   \<not> sublist ''beginner'' (project_name
       (transformProjects \<lparr>topic = ''Robotics'', skillLevel = ''beginner''\<rparr> ! 1)) \<and>
   \<not> sublist ''beginner'' (project_description
       (transformProjects \<lparr>topic = ''Robotics'', skillLevel = ''beginner''\<rparr> ! 1)) \<and>
   \<not> sublist ''beginner'' (project_name
       (transformProjects \<lparr>topic = ''Robotics'', skillLevel = ''beginner''\<rparr> ! 2)) \<and>
   \<not> sublist ''beginner'' (project_description
       (transformProjects \<lparr>topic = ''Robotics'', skillLevel = ''beginner''\<rparr> ! 2)) \<and>
   \<not> sublist ''beginner'' (item_text
       (transformLearningPath \<lparr>topic = ''Robotics'', skillLevel = ''beginner''\<rparr> ! 1)) \<and>
   item_description
       (transformLearningPath \<lparr>topic = ''Robotics'', skillLevel = ''beginner''\<rparr> ! 1) =
     Some ''Deepen understanding of Robotics and apply more advanced concepts. Focus on building practical skills through hands-on projects and implementation.'' \<and>
   \<not> sublist ''beginner'' (item_text
       (transformLearningPath \<lparr>topic = ''Robotics'', skillLevel = ''beginner''\<rparr> ! 2)) \<and>
   item_description
       (transformLearningPath \<lparr>topic = ''Robotics'', skillLevel = ''beginner''\<rparr> ! 2) =
     Some ''Develop expert-level skills in Robotics with focus on real-world application. Specialize in specific areas and build a professional portfolio.'' \<and>
   transformProjects \<lparr>topic = ''Robotics'', skillLevel = ''beginner''\<rparr> =
     transformProjects \<lparr>topic = ''Robotics'', skillLevel = ''advanced''\<rparr>"
  by (simp add: transformProjects_def transformLearningPath_def sublist_Cons_right)


end
